theory Spec2Isabelle
  imports Complex_Main
begin

section \<open>Python values\<close>

text \<open>
  The values that travel through \<^verbatim>\<open>basecrm/http_client.py\<close>: what
  \<^verbatim>\<open>resp.json()\<close> builds (None, bool, int, float, str, list, dict), the bytes
  of \<^verbatim>\<open>resp.content\<close>, and the \<^verbatim>\<open>Bunch\<close> objects that
  \<^verbatim>\<open>bunchify\<close> makes out of dicts. A dict is an association list of its
  items in insertion order, with string keys as JSON has them; a lookup reads the first
  binding of a key. A finite float is the rational number it denotes.
\<close>

datatype pyval =
    PNone
  | PBool bool
  | PInt int
  | PFloat rat
  | PStr string
  | PBytes string
  | PList "pyval list"
  | PDict "(string \<times> pyval) list"
  | PBunch "(string \<times> pyval) list"

text \<open>
  Modelled from the spec: the module \<^verbatim>\<open>basecrm.errors\<close>, whose four classes
  line 7 imports, is not among the sources. Each class is a constructor that keeps the
  arguments it is raised with at lines 144 to 150,
  \<^verbatim>\<open>ResourceError(resp_code, errors)\<close>, \<^verbatim>\<open>RateLimitError()\<close>,
  \<^verbatim>\<open>RequestError(resp_code, errors)\<close>, \<^verbatim>\<open>ServerError(resp_code, errors)\<close>,
  as the spec has it: an error object carries the HTTP status code and the decoded
  error payload, and the rate limit error carries none.

  \<open>Exception msg\<close> is the built-in \<^verbatim>\<open>Exception(msg)\<close> of lines 138 and 152.
  \<open>KeyError k\<close> and \<open>TypeError\<close> are what subscripting, membership and iteration
  raise; \<open>ValueError\<close> stands for a JSON decoding or encoding failure, and
  \<open>TransportError\<close> for whatever the HTTP library raises (timeout, connection).
\<close>

datatype error =
    ResourceError int pyval
  | RateLimitError
  | RequestError int pyval
  | ServerError int pyval
  | Exception string
  | KeyError string
  | TypeError
  | ValueError
  | TransportError string

subsection \<open>The Python operations the module applies to a decoded body\<close>

text \<open>\<^verbatim>\<open>sub in s\<close> on two strings: \<open>sub\<close> occurs in \<open>s\<close> as a contiguous block.\<close>

fun starts_with :: "string \<Rightarrow> string \<Rightarrow> bool" where
  "starts_with [] s = True"
| "starts_with (c # cs) [] = False"
| "starts_with (c # cs) (d # ds) = (c = d \<and> starts_with cs ds)"

fun contains_str :: "string \<Rightarrow> string \<Rightarrow> bool" where
  "contains_str sub [] = (sub = [])"
| "contains_str sub (c # cs) = (starts_with sub (c # cs) \<or> contains_str sub cs)"

text \<open>
  \<^verbatim>\<open>k in v\<close> for a string \<open>k\<close>: key membership on a dict (a Bunch is a dict),
  element membership on a list, substring on a string, \<^verbatim>\<open>TypeError\<close> on
  None, numbers and bytes.
\<close>

fun py_contains :: "string \<Rightarrow> pyval \<Rightarrow> error + bool" where
  "py_contains k (PDict kvs) = Inr (k \<in> set (map fst kvs))"
| "py_contains k (PBunch kvs) = Inr (k \<in> set (map fst kvs))"
| "py_contains k (PList xs) = Inr (PStr k \<in> set xs)"
| "py_contains k (PStr s) = Inr (contains_str k s)"
| "py_contains k v = Inl TypeError"

text \<open>
  \<^verbatim>\<open>v[k]\<close> for a string \<open>k\<close>: the value on a dict that has the key,
  \<^verbatim>\<open>KeyError\<close> on a dict that lacks it, \<^verbatim>\<open>TypeError\<close> on everything
  that is not a dict (lists, strings and bytes take integer indices only).
\<close>

fun py_getitem :: "pyval \<Rightarrow> string \<Rightarrow> error + pyval" where
  "py_getitem (PDict kvs) k = (case map_of kvs k of None \<Rightarrow> Inl (KeyError k) | Some v \<Rightarrow> Inr v)"
| "py_getitem (PBunch kvs) k = (case map_of kvs k of None \<Rightarrow> Inl (KeyError k) | Some v \<Rightarrow> Inr v)"
| "py_getitem v k = Inl TypeError"

text \<open>
  The sequence a \<^verbatim>\<open>for\<close> runs over: the elements of a list, the keys of a dict,
  the characters of a string, the byte values of bytes; \<^verbatim>\<open>TypeError\<close> on None
  and numbers.
\<close>

fun py_iter :: "pyval \<Rightarrow> error + pyval list" where
  "py_iter (PList xs) = Inr xs"
| "py_iter (PDict kvs) = Inr (map (\<lambda>kv. PStr (fst kv)) kvs)"
| "py_iter (PBunch kvs) = Inr (map (\<lambda>kv. PStr (fst kv)) kvs)"
| "py_iter (PStr s) = Inr (map (\<lambda>c. PStr [c]) s)"
| "py_iter (PBytes b) = Inr (map (\<lambda>c. PInt (of_char c)) b)"
| "py_iter v = Inl TypeError"

text \<open>\<^verbatim>\<open>isinstance(v, dict)\<close>\<close>

fun is_dict :: "pyval \<Rightarrow> bool" where
  "is_dict (PDict kvs) = True"
| "is_dict (PBunch kvs) = True"
| "is_dict v = False"

text \<open>
  \<^verbatim>\<open>bunchify\<close> of the third-party \<^verbatim>\<open>bunch\<close> package, which line 5
  imports: a dict becomes a Bunch of its bunchified values, a list the list of its
  bunchified elements, anything else is returned as it is. The spec calls it a
  structured-value reconstruction facility that gives attribute-style access and has no
  behaviour beyond field lookup.
\<close>

fun bunchify :: "pyval \<Rightarrow> pyval" where
  "bunchify (PDict kvs) = PBunch (map (\<lambda>(k, v). (k, bunchify v)) kvs)"
| "bunchify (PBunch kvs) = PBunch (map (\<lambda>(k, v). (k, bunchify v)) kvs)"
| "bunchify (PList xs) = PList (map bunchify xs)"
| "bunchify x = x"

text \<open>
  A Bunch is a dict subclass that inherits \<^verbatim>\<open>dict.__eq__\<close>, so Python's
  \<^verbatim>\<open>==\<close> does not see the class. \<open>plain\<close> forgets the class, and
  \<open>py_eq a b\<close> says that \<open>a\<close> and \<open>b\<close> are the same value once it is
  forgotten. Python's \<^verbatim>\<open>==\<close> identifies more (dicts in another key order,
  \<^verbatim>\<open>1 == 1.0\<close>): \<open>py_eq a b\<close> is the stronger statement.
\<close>

fun plain :: "pyval \<Rightarrow> pyval" where
  "plain (PDict kvs) = PDict (map (\<lambda>(k, v). (k, plain v)) kvs)"
| "plain (PBunch kvs) = PDict (map (\<lambda>(k, v). (k, plain v)) kvs)"
| "plain (PList xs) = PList (map plain xs)"
| "plain x = x"

definition py_eq :: "pyval \<Rightarrow> pyval \<Rightarrow> bool" where
  "py_eq a b = (plain a = plain b)"

section \<open>The envelope (lines 154 to 160)\<close>

text \<open>\<^verbatim>\<open>return {'data': body}\<close>\<close>

definition wrap_envelope :: "pyval \<Rightarrow> pyval" where
  "wrap_envelope body = PDict [(''data'', body)]"

text \<open>
  The list comprehension of line 160, on the sequence \<^verbatim>\<open>body['items']\<close>
  iterates over: the first element whose \<^verbatim>\<open>item['data']\<close> raises ends it.
\<close>

fun unwrap_items :: "pyval list \<Rightarrow> error + pyval list" where
  "unwrap_items [] = Inr []"
| "unwrap_items (item # rest) =
     (case py_getitem item ''data'' of
        Inl e \<Rightarrow> Inl e
      | Inr d \<Rightarrow>
         (case unwrap_items rest of
            Inl e \<Rightarrow> Inl e
          | Inr ds \<Rightarrow> Inr (bunchify d # ds)))"

text \<open>
  \<^verbatim>\<open>return [bunchify(item['data']) for item in body['items']] if 'items' in body
         else bunchify(body['data'])\<close>
\<close>

definition unwrap_envelope :: "pyval \<Rightarrow> error + pyval" where
  "unwrap_envelope body =
     (case py_contains ''items'' body of
        Inl e \<Rightarrow> Inl e
      | Inr has_items \<Rightarrow>
         if has_items then
           (case py_getitem body ''items'' of
              Inl e \<Rightarrow> Inl e
            | Inr its \<Rightarrow>
               (case py_iter its of
                  Inl e \<Rightarrow> Inl e
                | Inr xs \<Rightarrow>
                   (case unwrap_items xs of
                      Inl e \<Rightarrow> Inl e
                    | Inr ds \<Rightarrow> Inr (PList ds))))
         else
           (case py_getitem body ''data'' of
              Inl e \<Rightarrow> Inl e
            | Inr d \<Rightarrow> Inr (bunchify d)))"

section \<open>The gateway (lines 10 to 152)\<close>

text \<open>
  Modelled from the spec: the class \<^verbatim>\<open>basecrm.Configuration\<close> is not among the
  sources. The record has the attributes that \<^verbatim>\<open>http_client.py\<close> reads from
  \<^verbatim>\<open>self.config\<close>; the spec lists the same six (base URL, access token, user
  agent, timeout in seconds with fractions allowed, TLS verification flag, verbose flag).
\<close>

record config =
  base_url :: string
  access_token :: string
  user_agent :: string
  timeout :: rat
  verify_ssl :: bool
  verbose :: bool

text \<open>
  The arguments of the one call \<^verbatim>\<open>requests.request(method, url, params=...,
  data=..., headers=..., timeout=..., verify=...)\<close> of lines 117 to 122. The headers
  dict is the list of its items in insertion order; \<open>req_data\<close> is \<open>PNone\<close> or
  the \<open>PStr\<close> of the serialized body.
\<close>

record http_request =
  req_method :: string
  req_url :: string
  req_params :: pyval
  req_data :: pyval
  req_headers :: "(string \<times> string) list"
  req_timeout :: rat
  req_verify :: bool

text \<open>
  What the module reads of the response object: \<^verbatim>\<open>resp.status_code\<close>,
  \<^verbatim>\<open>resp.headers\<close>, \<^verbatim>\<open>resp.content\<close>, \<^verbatim>\<open>resp.text\<close>, and
  the outcome of \<^verbatim>\<open>resp.json()\<close>: the decoded value, or the exception the
  decoder raises on a body that is not JSON.
\<close>

record http_response =
  status_code :: int
  resp_headers :: "(string \<times> string) list"
  content :: string
  resp_text :: string
  resp_json :: "error + pyval"

text \<open>\<^verbatim>\<open>API_VERSION = '/v2'\<close> (line 18)\<close>

definition API_VERSION :: string where
  "API_VERSION = ''/v2''"

text \<open>
  \<^verbatim>\<open>resp.headers\<close> is the HTTP library's case-insensitive dict: membership and
  subscripting compare the lower-cased key.
\<close>

definition lower_char :: "char \<Rightarrow> char" where
  "lower_char c =
     (case map_of (zip ''ABCDEFGHIJKLMNOPQRSTUVWXYZ'' ''abcdefghijklmnopqrstuvwxyz'') c of
        None \<Rightarrow> c
      | Some l \<Rightarrow> l)"

definition ci_lookup :: "(string \<times> string) list \<Rightarrow> string \<Rightarrow> string option" where
  "ci_lookup hs k = map_of (map (\<lambda>(k', v). (map lower_char k', v)) hs) (map lower_char k)"

text \<open>\<^verbatim>\<open>'{0}'.format(n)\<close> on an integer: its decimal digits, with a sign when negative.\<close>

definition digit_char :: "nat \<Rightarrow> char" where
  "digit_char d = ''0123456789'' ! d"

function str_nat :: "nat \<Rightarrow> string" where
  "str_nat n = (if n < 10 then [digit_char n] else str_nat (n div 10) @ [digit_char (n mod 10)])"
  by pat_completeness auto
termination
  by (relation "measure id") auto

declare str_nat.simps [simp del]

definition str_int :: "int \<Rightarrow> string" where
  "str_int i = (if i < 0 then CHR ''-'' # str_nat (nat (- i)) else str_nat (nat i))"

text \<open>
  \<^verbatim>\<open>handle_error_response\<close> (lines 134 to 152). The bare \<^verbatim>\<open>except:\<close>
  catches whatever \<^verbatim>\<open>resp.json()\<close> raises and raises the generic exception
  with the formatted message instead; only then is the status code looked at. The
  result type keeps a normal return (\<open>Inr ()\<close>) apart from a raise.
\<close>

definition handle_error_response :: "http_response \<Rightarrow> error + unit" where
  "handle_error_response resp =
     (case resp_json resp of
        Inl _ \<Rightarrow>
          Inl (Exception (''Unknown HTTP error response. Json expected. '' @
                          ''HTTP response code='' @ str_int (status_code resp) @ ''. '' @
                          ''HTTP response body='' @ resp_text resp))
      | Inr errors \<Rightarrow>
          (let resp_code = status_code resp in
           if resp_code = 422 then Inl (ResourceError resp_code errors)
           else if resp_code = 429 then Inl RateLimitError
           else if 400 \<le> resp_code \<and> resp_code < 500 then Inl (RequestError resp_code errors)
           else if 500 \<le> resp_code \<and> resp_code < 600 then Inl (ServerError resp_code errors)
           else Inl (Exception ''Unknown HTTP error response'')))"

text \<open>
  Lines 124 to 132 of \<^verbatim>\<open>request\<close>: what is done with the response once the
  HTTP library has returned it. \<open>json_content_type\<close> is the condition of line 127,
  \<^verbatim>\<open>'Content-Type' in resp.headers and 'json' in resp.headers['Content-Type']\<close>.
\<close>

definition json_content_type :: "(string \<times> string) list \<Rightarrow> bool" where
  "json_content_type hs =
     (case ci_lookup hs ''Content-Type'' of
        None \<Rightarrow> False
      | Some ct \<Rightarrow> contains_str ''json'' ct)"

definition decode_response :: "http_response \<Rightarrow> error + int \<times> (string \<times> string) list \<times> pyval" where
  "decode_response resp =
     (case (if \<not> (200 \<le> status_code resp \<and> status_code resp < 300)
            then handle_error_response resp else Inr ()) of
        Inl e \<Rightarrow> Inl e
      | Inr _ \<Rightarrow>
         if json_content_type (resp_headers resp) then
           (case resp_json resp of
              Inl e \<Rightarrow> Inl e
            | Inr j \<Rightarrow>
               (case unwrap_envelope j of
                  Inl e \<Rightarrow> Inl e
                | Inr resp_body \<Rightarrow> Inr (status_code resp, resp_headers resp, resp_body)))
         else Inr (status_code resp, resp_headers resp, PBytes (content resp)))"

text \<open>
  \<^verbatim>\<open>request\<close> (lines 81 to 132). The two collaborators are parameters:
  \<open>dumps\<close> is \<^verbatim>\<open>json.dumps\<close> (it raises on a value it cannot encode) and
  \<open>transport\<close> is \<^verbatim>\<open>requests.request\<close> (it returns a response or raises).
  The result is the list of the HTTP calls made, in order, and the outcome: the
  exception raised, or the returned tuple. \<^verbatim>\<open>**kwargs\<close> is accepted and not
  used by the body of the function.
\<close>

definition request ::
  "(pyval \<Rightarrow> error + string) \<Rightarrow> (http_request \<Rightarrow> error + http_response) \<Rightarrow> config \<Rightarrow>
   string \<Rightarrow> string \<Rightarrow> pyval \<Rightarrow> pyval \<Rightarrow>
   http_request list \<times> (error + int \<times> (string \<times> string) list \<times> pyval)" where
  "request dumps transport cfg method url params body =
     (let full_url = base_url cfg @ API_VERSION @ url;
          headers = [(''Accept'', ''application/json''),
                     (''Authorization'', ''Bearer '' @ access_token cfg),
                     (''User-Agent'', user_agent cfg)]
      in case (if body \<noteq> PNone
               then (case dumps (wrap_envelope body) of
                       Inl e \<Rightarrow> Inl e
                     | Inr s \<Rightarrow> Inr (headers @ [(''Content-Type'', ''application/json'')], PStr s))
               else Inr (headers, body)) of
           Inl e \<Rightarrow> ([], Inl e)
         | Inr (headers', body') \<Rightarrow>
            (let req = \<lparr>req_method = method, req_url = full_url, req_params = params,
                        req_data = body', req_headers = headers',
                        req_timeout = timeout cfg, req_verify = verify_ssl cfg\<rparr>
             in case transport req of
                  Inl e \<Rightarrow> ([req], Inl e)
                | Inr resp \<Rightarrow> ([req], decode_response resp)))"

text \<open>The four verbs (lines 29 to 79) call \<^verbatim>\<open>request\<close> with the other argument left at None.\<close>

definition get where
  "get dumps transport cfg url params = request dumps transport cfg ''get'' url params PNone"

definition post where
  "post dumps transport cfg url body = request dumps transport cfg ''post'' url PNone body"

definition put where
  "put dumps transport cfg url body = request dumps transport cfg ''put'' url PNone body"

definition delete where
  "delete dumps transport cfg url params = request dumps transport cfg ''delete'' url params PNone"

section \<open>Concrete data for the instances below\<close>

text \<open>
  A configuration, the request a \<^verbatim>\<open>get('/contacts')\<close> sends under it, a
  transport that answers every request with one given response, an encoder that yields
  one given string, and responses with a JSON or another content type.
\<close>

definition sample_config :: config where
  "sample_config =
     \<lparr>base_url = ''https://api.getbase.com'', access_token = ''t0ken'',
      user_agent = ''BaseCRM/V2 Python/1.0'', timeout = 30, verify_ssl = True,
      verbose = False\<rparr>"

definition sample_get :: http_request where
  "sample_get =
     \<lparr>req_method = ''get'', req_url = ''https://api.getbase.com/v2/contacts'',
      req_params = PNone, req_data = PNone,
      req_headers = [(''Accept'', ''application/json''),
                     (''Authorization'', ''Bearer t0ken''),
                     (''User-Agent'', ''BaseCRM/V2 Python/1.0'')],
      req_timeout = 30, req_verify = True\<rparr>"

definition answering :: "http_response \<Rightarrow> http_request \<Rightarrow> error + http_response" where
  "answering resp req = Inr resp"

definition encoded_as :: "string \<Rightarrow> pyval \<Rightarrow> error + string" where
  "encoded_as s v = Inr s"

definition sample_contact :: pyval where
  "sample_contact = PDict [(''name'', PStr ''Ada''), (''is_organization'', PBool False)]"

definition sample_dumps :: "pyval \<Rightarrow> error + string" where
  \<open>sample_dumps v =
     (if v = PDict [(''data'', sample_contact)]
      then Inr ''{"data": {"name": "Ada", "is_organization": false}}''
      else Inl TypeError)\<close>

definition sample_errors :: pyval where
  "sample_errors =
     PDict [(''errors'', PList [PDict [(''error'', PDict [(''code'', PStr ''invalid'')])]]),
            (''meta'', PDict [(''type'', PStr ''errors_collection'')])]"

definition contact_page :: pyval where
  "contact_page =
     PDict [(''items'', PList [PDict [(''data'', PDict [(''id'', PInt 1)]), (''meta'', PNone)],
                                PDict [(''data'', PDict [(''id'', PInt 2)]), (''meta'', PNone)]]),
            (''meta'', PDict [(''count'', PInt 2)])]"

definition json_reply :: "int \<Rightarrow> string \<Rightarrow> pyval \<Rightarrow> http_response" where
  "json_reply code raw v =
     \<lparr>status_code = code,
      resp_headers = [(''Content-Type'', ''application/json; charset=utf-8'')],
      content = raw, resp_text = raw, resp_json = Inr v\<rparr>"

definition text_reply :: "int \<Rightarrow> string \<Rightarrow> string \<Rightarrow> http_response" where
  "text_reply code ctype raw =
     \<lparr>status_code = code, resp_headers = [(''content-type'', ctype)],
      content = raw, resp_text = raw, resp_json = Inl ValueError\<rparr>"

section \<open>Supporting lemmas\<close>

subsection \<open>Strings and dicts\<close>

lemma starts_with_iff: "starts_with sub s \<longleftrightarrow> (\<exists>q. s = sub @ q)"
  by (induction sub s rule: starts_with.induct) auto

lemma contains_str_iff: "contains_str sub s \<longleftrightarrow> (\<exists>p q. s = p @ sub @ q)"
proof (induction s)
  case Nil
  then show ?case by auto
next
  case (Cons c cs)
  show ?case
  proof
    assume "contains_str sub (c # cs)"
    then consider "starts_with sub (c # cs)" | "contains_str sub cs" by auto
    then show "\<exists>p q. c # cs = p @ sub @ q"
    proof cases
      case 1
      then obtain q where "c # cs = sub @ q" by (auto simp: starts_with_iff)
      then have "c # cs = [] @ sub @ q" by simp
      then show ?thesis by blast
    next
      case 2
      with Cons.IH obtain p q where "cs = p @ sub @ q" by auto
      then have "c # cs = (c # p) @ sub @ q" by simp
      then show ?thesis by blast
    qed
  next
    assume "\<exists>p q. c # cs = p @ sub @ q"
    then obtain p q where pq: "c # cs = p @ sub @ q" by blast
    show "contains_str sub (c # cs)"
    proof (cases p)
      case Nil
      with pq have "starts_with sub (c # cs)" by (auto simp: starts_with_iff)
      then show ?thesis by simp
    next
      case (Cons a p')
      with pq have "cs = p' @ sub @ q" by simp
      with Cons.IH have "contains_str sub cs" by blast
      then show ?thesis by simp
    qed
  qed
qed

lemma json_content_type_iff:
  "json_content_type hs \<longleftrightarrow>
   (\<exists>p q. ci_lookup hs ''Content-Type'' = Some (p @ ''json'' @ q))"
  by (auto simp: json_content_type_def contains_str_iff split: option.splits)

lemma map_of_key: "map_of kvs k = Some v \<Longrightarrow> k \<in> set (map fst kvs)"
  by (auto dest: map_of_SomeD intro: rev_image_eqI)

lemma map_of_no_key: "k \<notin> set (map fst kvs) \<Longrightarrow> map_of kvs k = None"
  by (simp add: map_of_eq_None_iff)

lemma py_getitem_error:
  "py_getitem x k = Inl e \<Longrightarrow> e = (if is_dict x then KeyError k else TypeError)"
  by (cases x) (auto split: option.splits)

subsection \<open>The envelope\<close>

lemma plain_bunchify: "plain (bunchify x) = plain x"
  by (induction x) (auto simp: case_prod_beta)

lemma py_eq_bunchify: "py_eq (bunchify x) x"
  by (simp add: py_eq_def plain_bunchify)

lemma py_eq_bunchify_list: "py_eq (PList (map bunchify xs)) (PList xs)"
  by (simp add: py_eq_def plain_bunchify)

lemma unwrap_items_all_data:
  "map (\<lambda>item. py_getitem item ''data'') xs = map Inr ds \<Longrightarrow>
   unwrap_items xs = Inr (map bunchify ds)"
proof (induction xs arbitrary: ds)
  case Nil
  then show ?case by simp
next
  case (Cons item rest)
  from Cons.prems obtain d ds' where
    ds: "ds = d # ds'" and
    hd: "py_getitem item ''data'' = Inr d" and
    tl: "map (\<lambda>item. py_getitem item ''data'') rest = map Inr ds'"
    by (cases ds) auto
  from Cons.IH [OF tl] hd ds show ?case by simp
qed

lemma unwrap_items_first_error:
  "\<forall>y\<in>set pre. \<not> isl (py_getitem y ''data'') \<Longrightarrow> py_getitem x ''data'' = Inl e \<Longrightarrow>
   unwrap_items (pre @ x # suf) = Inl e"
  by (induction pre) (auto split: sum.splits)

lemma unwrap_items_some_error:
  "\<exists>x\<in>set xs. isl (py_getitem x ''data'') \<Longrightarrow> isl (unwrap_items xs)"
proof (induction xs)
  case Nil
  then show ?case by simp
next
  case (Cons a xs)
  show ?case
  proof (cases "py_getitem a ''data''")
    case (Inl e)
    then show ?thesis by simp
  next
    case (Inr d)
    with Cons.prems have "\<exists>x\<in>set xs. isl (py_getitem x ''data'')" by auto
    then have "isl (unwrap_items xs)" by (rule Cons.IH)
    with Inr show ?thesis by (cases "unwrap_items xs") auto
  qed
qed

lemma unwrap_envelope_items:
  "map_of kvs ''items'' = Some (PList xs) \<Longrightarrow>
   unwrap_envelope (PDict kvs) =
     (case unwrap_items xs of Inl e \<Rightarrow> Inl e | Inr ds \<Rightarrow> Inr (PList ds))"
  using map_of_key [of kvs "''items''"] by (simp add: unwrap_envelope_def)

lemma unwrap_envelope_no_keys:
  "''items'' \<notin> set (map fst kvs) \<Longrightarrow> ''data'' \<notin> set (map fst kvs) \<Longrightarrow>
   unwrap_envelope (PDict kvs) = Inl (KeyError ''data'')"
  using map_of_no_key [of "''data''" kvs] by (simp add: unwrap_envelope_def)

subsection \<open>The gateway\<close>

text \<open>Every path through \<^verbatim>\<open>handle_error_response\<close> ends in a \<^verbatim>\<open>raise\<close>.\<close>

lemma handle_error_response_raises: "isl (handle_error_response resp)"
  by (simp add: handle_error_response_def Let_def split: sum.splits)

lemma decode_response_failure:
  "\<not> (200 \<le> status_code resp \<and> status_code resp < 300) \<Longrightarrow>
   handle_error_response resp = Inl e \<Longrightarrow> decode_response resp = Inl e"
  by (simp add: decode_response_def)

lemma decode_response_success:
  "200 \<le> status_code resp \<and> status_code resp < 300 \<Longrightarrow>
   decode_response resp =
     (if json_content_type (resp_headers resp) then
        (case resp_json resp of
           Inl e \<Rightarrow> Inl e
         | Inr j \<Rightarrow>
            (case unwrap_envelope j of
               Inl e \<Rightarrow> Inl e
             | Inr resp_body \<Rightarrow> Inr (status_code resp, resp_headers resp, resp_body)))
      else Inr (status_code resp, resp_headers resp, PBytes (content resp)))"
  by (simp add: decode_response_def)

text \<open>
  When \<^verbatim>\<open>request\<close> has sent \<open>req\<close> and the transport answers it with
  \<open>resp\<close>, the outcome of the call is what lines 124 to 132 make of \<open>resp\<close>.
\<close>

lemma request_outcome:
  "fst (request dumps transport cfg method url params body) = [req] \<Longrightarrow>
   transport req = Inr resp \<Longrightarrow>
   snd (request dumps transport cfg method url params body) = decode_response resp"
  by (auto simp: request_def Let_def split: if_splits sum.splits prod.splits)

subsection \<open>The concrete data\<close>

lemma sample_get_sent:
  "fst (request dumps (answering resp) sample_config ''get'' ''/contacts'' PNone PNone) =
     [sample_get]"
  by (simp add: request_def Let_def sample_config_def sample_get_def answering_def
      API_VERSION_def)

lemma answering_sample_get: "answering resp sample_get = Inr resp"
  by (simp add: answering_def)

lemma json_reply_lookup:
  "ci_lookup (resp_headers (json_reply code raw v)) ''Content-Type'' =
     Some (''application/'' @ ''json'' @ ''; charset=utf-8'')"
  by (simp add: json_reply_def ci_lookup_def lower_char_def)

lemma text_reply_lookup:
  "ci_lookup (resp_headers (text_reply code ctype raw)) ''Content-Type'' = Some ctype"
  by (simp add: text_reply_def ci_lookup_def lower_char_def)

lemma str_int_502: "str_int 502 = ''502''"
  by (simp add: str_int_def str_nat.simps digit_char_def)

lemma str_int_429: "str_int 429 = ''429''"
  by (simp add: str_int_def str_nat.simps digit_char_def)

section \<open>The claims\<close>

subsection \<open>C1: what unwrap_envelope returns\<close>

text \<open>
  C1. On a decoded JSON object, \<^verbatim>\<open>unwrap_envelope\<close> returns: if the object has
  an \<^verbatim>\<open>items\<close> key whose value is a list of elements that each have a
  \<^verbatim>\<open>data\<close> field, the list of the elements' \<^verbatim>\<open>data\<close> fields in the
  order of \<^verbatim>\<open>items\<close>; if it has no \<^verbatim>\<open>items\<close> key and has a
  \<^verbatim>\<open>data\<close> key, the value of \<^verbatim>\<open>data\<close>. Each value comes back
  bunchified, which leaves it the same value up to the Bunch class of its dicts.
\<close>

theorem unwrap_envelope_shapes:
  "(map_of kvs ''items'' = Some (PList xs) \<and>
      map (\<lambda>item. py_getitem item ''data'') xs = map Inr ds \<longrightarrow>
    unwrap_envelope (PDict kvs) = Inr (PList (map bunchify ds)) \<and>
      py_eq (PList (map bunchify ds)) (PList ds)) \<and>
   (''items'' \<notin> set (map fst kvs) \<and> map_of kvs ''data'' = Some d \<longrightarrow>
    unwrap_envelope (PDict kvs) = Inr (bunchify d) \<and> py_eq (bunchify d) d)"
proof (intro conjI impI)
  assume a: "map_of kvs ''items'' = Some (PList xs) \<and>
      map (\<lambda>item. py_getitem item ''data'') xs = map Inr ds"
  then have "unwrap_items xs = Inr (map bunchify ds)"
    by (simp add: unwrap_items_all_data)
  with a show "unwrap_envelope (PDict kvs) = Inr (PList (map bunchify ds))"
    by (simp add: unwrap_envelope_items)
next
  show "py_eq (PList (map bunchify ds)) (PList ds)"
    by (rule py_eq_bunchify_list)
next
  assume "''items'' \<notin> set (map fst kvs) \<and> map_of kvs ''data'' = Some d"
  then show "unwrap_envelope (PDict kvs) = Inr (bunchify d)"
    by (simp add: unwrap_envelope_def)
next
  show "py_eq (bunchify d) d"
    by (rule py_eq_bunchify)
qed

theorem unwrap_envelope_shapes_witness:
  "unwrap_envelope contact_page =
     Inr (PList [PBunch [(''id'', PInt 1)], PBunch [(''id'', PInt 2)]]) \<and>
   unwrap_envelope (PDict [(''data'', PDict [(''id'', PInt 7)]), (''meta'', PNone)]) =
     Inr (PBunch [(''id'', PInt 7)])"
  using
    unwrap_envelope_shapes [where
      kvs = "[(''items'', PList [PDict [(''data'', PDict [(''id'', PInt 1)]), (''meta'', PNone)],
                                  PDict [(''data'', PDict [(''id'', PInt 2)]), (''meta'', PNone)]]),
              (''meta'', PDict [(''count'', PInt 2)])]"
      and xs = "[PDict [(''data'', PDict [(''id'', PInt 1)]), (''meta'', PNone)],
                 PDict [(''data'', PDict [(''id'', PInt 2)]), (''meta'', PNone)]]"
      and ds = "[PDict [(''id'', PInt 1)], PDict [(''id'', PInt 2)]]"]
    unwrap_envelope_shapes [where
      kvs = "[(''data'', PDict [(''id'', PInt 7)]), (''meta'', PNone)]"
      and d = "PDict [(''id'', PInt 7)]"]
  by (simp add: contact_page_def)

subsection \<open>C2: the payload sent\<close>

text \<open>
  C2. A call to \<^verbatim>\<open>request\<close> with a body \<open>B\<close> that is not None sends, as the
  data of its HTTP call, the JSON encoding of the object \<^verbatim>\<open>{"data": B}\<close> (and
  makes no HTTP call when the encoder raises); with the body None it sends no data, and
  nothing is serialized: the call does not depend on the encoder.
\<close>

theorem request_payload:
  "map req_data (fst (request dumps transport cfg method url params body)) =
     (if body = PNone then [PNone]
      else case dumps (PDict [(''data'', body)]) of Inl e \<Rightarrow> [] | Inr s \<Rightarrow> [PStr s]) \<and>
   request dumps transport cfg method url params PNone =
     request dumps' transport cfg method url params PNone"
  by (simp add: request_def Let_def wrap_envelope_def split: sum.splits prod.splits)

theorem request_payload_witness:
  \<open>map req_data (fst (request sample_dumps (answering (json_reply 200 ''{}'' contact_page))
                        sample_config ''post'' ''/contacts'' PNone sample_contact)) =
     [PStr ''{"data": {"name": "Ada", "is_organization": false}}''] \<and>
   map req_data (fst (request sample_dumps (answering (json_reply 200 ''{}'' contact_page))
                        sample_config ''get'' ''/contacts'' PNone PNone)) = [PNone]\<close>
  using
    request_payload [of sample_dumps "answering (json_reply 200 ''{}'' contact_page)"
      sample_config "''post''" "''/contacts''" PNone sample_contact]
    request_payload [of sample_dumps "answering (json_reply 200 ''{}'' contact_page)"
      sample_config "''get''" "''/contacts''" PNone PNone]
  by (simp add: sample_dumps_def sample_contact_def)

subsection \<open>C3: the error raised for a status code\<close>

text \<open>
  C3. When the response has a status code outside [200, 300) and a body that parses as
  JSON, \<^verbatim>\<open>request\<close> raises one error, determined by the status code: a
  ResourceError with status 422 and the parsed errors for 422, a RateLimitError for 429,
  a RequestError with the status and the parsed errors for the other codes of 400 to
  499, a ServerError with the status and the parsed errors for 500 to 599, and the
  generic exception with no payload for every other code.
\<close>

theorem error_response_classified:
  assumes "fst (request dumps transport cfg method url params body) = [req]"
    and "transport req = Inr resp"
    and "\<not> (200 \<le> status_code resp \<and> status_code resp < 300)"
    and "resp_json resp = Inr errors"
  shows "snd (request dumps transport cfg method url params body) =
     Inl (if status_code resp = 422 then ResourceError 422 errors
          else if status_code resp = 429 then RateLimitError
          else if 400 \<le> status_code resp \<and> status_code resp < 500
            then RequestError (status_code resp) errors
          else if 500 \<le> status_code resp \<and> status_code resp < 600
            then ServerError (status_code resp) errors
          else Exception ''Unknown HTTP error response'')"
proof -
  define err where "err =
         (if status_code resp = 422 then ResourceError 422 errors
          else if status_code resp = 429 then RateLimitError
          else if 400 \<le> status_code resp \<and> status_code resp < 500
            then RequestError (status_code resp) errors
          else if 500 \<le> status_code resp \<and> status_code resp < 600
            then ServerError (status_code resp) errors
          else Exception ''Unknown HTTP error response'')"
  have "handle_error_response resp = Inl err"
    using assms(4) by (simp add: handle_error_response_def Let_def err_def)
  with assms(3) have "decode_response resp = Inl err"
    by (rule decode_response_failure)
  with request_outcome [OF assms(1,2)] show ?thesis
    by (simp add: err_def)
qed

theorem error_response_classified_witness:
  "snd (request (encoded_as ''{}'') (answering (json_reply 422 ''{}'' sample_errors))
          sample_config ''get'' ''/contacts'' PNone PNone) =
     Inl (ResourceError 422 sample_errors) \<and>
   snd (request (encoded_as ''{}'') (answering (json_reply 429 ''{}'' sample_errors))
          sample_config ''get'' ''/contacts'' PNone PNone) = Inl RateLimitError \<and>
   snd (request (encoded_as ''{}'') (answering (json_reply 404 ''{}'' sample_errors))
          sample_config ''get'' ''/contacts'' PNone PNone) =
     Inl (RequestError 404 sample_errors) \<and>
   snd (request (encoded_as ''{}'') (answering (json_reply 503 ''{}'' sample_errors))
          sample_config ''get'' ''/contacts'' PNone PNone) =
     Inl (ServerError 503 sample_errors) \<and>
   snd (request (encoded_as ''{}'') (answering (json_reply 302 ''{}'' sample_errors))
          sample_config ''get'' ''/contacts'' PNone PNone) =
     Inl (Exception ''Unknown HTTP error response'')"
proof -
  have sent: "fst (request (encoded_as ''{}'') (answering (json_reply code ''{}'' sample_errors))
          sample_config ''get'' ''/contacts'' PNone PNone) = [sample_get]" for code
    by (rule sample_get_sent)
  have got: "answering (json_reply code ''{}'' sample_errors) sample_get =
          Inr (json_reply code ''{}'' sample_errors)" for code
    by (rule answering_sample_get)
  have js: "resp_json (json_reply code ''{}'' sample_errors) = Inr sample_errors" for code
    by (simp add: json_reply_def)
  have st: "status_code (json_reply code ''{}'' sample_errors) = code" for code
    by (simp add: json_reply_def)
  show ?thesis
    using error_response_classified [OF sent [of 422] got [of 422] _ js [of 422]]
      error_response_classified [OF sent [of 429] got [of 429] _ js [of 429]]
      error_response_classified [OF sent [of 404] got [of 404] _ js [of 404]]
      error_response_classified [OF sent [of 503] got [of 503] _ js [of 503]]
      error_response_classified [OF sent [of 302] got [of 302] _ js [of 302]]
    by (simp add: st)
qed

subsection \<open>C4: status 429\<close>

text \<open>
  C4, as the code has it. When the response has status code 429 and a body that parses
  as JSON, \<^verbatim>\<open>request\<close> raises a RateLimitError, whatever the parsed body is.
\<close>

theorem rate_limit_any_json_body:
  assumes "fst (request dumps transport cfg method url params body) = [req]"
    and "transport req = Inr resp"
    and "status_code resp = 429"
    and "resp_json resp = Inr errors"
  shows "snd (request dumps transport cfg method url params body) = Inl RateLimitError"
proof -
  have "handle_error_response resp = Inl RateLimitError"
    using assms(3,4) by (simp add: handle_error_response_def Let_def)
  moreover have "\<not> (200 \<le> status_code resp \<and> status_code resp < 300)"
    using assms(3) by simp
  ultimately have "decode_response resp = Inl RateLimitError"
    by (simp add: decode_response_failure)
  with request_outcome [OF assms(1,2)] show ?thesis by simp
qed

theorem rate_limit_any_json_body_witness:
  "snd (request (encoded_as ''{}'') (answering (json_reply 429 ''null'' PNone))
          sample_config ''get'' ''/contacts'' PNone PNone) = Inl RateLimitError \<and>
   snd (request (encoded_as ''{}'') (answering (json_reply 429 ''{}'' sample_errors))
          sample_config ''get'' ''/contacts'' PNone PNone) = Inl RateLimitError"
proof -
  have st: "status_code (json_reply 429 raw v) = 429" for raw v
    by (simp add: json_reply_def)
  have js: "resp_json (json_reply 429 raw v) = Inr v" for raw v
    by (simp add: json_reply_def)
  show ?thesis
    using
      rate_limit_any_json_body [OF sample_get_sent
        answering_sample_get [of "json_reply 429 ''null'' PNone"] st js]
      rate_limit_any_json_body [OF sample_get_sent
        answering_sample_get [of "json_reply 429 ''{}'' sample_errors"] st js]
    by simp
qed

text \<open>
  C4 as stated fails when the body is not JSON: the body is decoded (lines 135 to 141)
  before the status code is looked at, so a 429 response with the plain text
  \<^verbatim>\<open>Too Many Requests\<close> ends in the generic exception and not in a
  RateLimitError.
\<close>

theorem rate_limit_unparseable_counterexample:
  "status_code (text_reply 429 ''text/plain'' ''Too Many Requests'') = 429 \<and>
   snd (request (encoded_as ''{}'')
          (answering (text_reply 429 ''text/plain'' ''Too Many Requests''))
          sample_config ''get'' ''/contacts'' PNone PNone) =
     Inl (Exception ''Unknown HTTP error response. Json expected. HTTP response code=429. HTTP response body=Too Many Requests'') \<and>
   snd (request (encoded_as ''{}'')
          (answering (text_reply 429 ''text/plain'' ''Too Many Requests''))
          sample_config ''get'' ''/contacts'' PNone PNone) \<noteq> Inl RateLimitError"
  by (simp add: request_def Let_def sample_config_def answering_def text_reply_def
      decode_response_def handle_error_response_def str_int_429)

subsection \<open>C5: an error response that is not JSON\<close>

text \<open>
  C5. When the response has a status code outside [200, 300) and a body that does not
  parse as JSON, \<^verbatim>\<open>request\<close> raises the generic exception, and no other
  error; its message carries the status code and the text of the response.
\<close>

theorem unparseable_error_response:
  assumes "fst (request dumps transport cfg method url params body) = [req]"
    and "transport req = Inr resp"
    and "\<not> (200 \<le> status_code resp \<and> status_code resp < 300)"
    and "resp_json resp = Inl e"
  shows "snd (request dumps transport cfg method url params body) =
     Inl (Exception (''Unknown HTTP error response. Json expected. HTTP response code='' @
                     str_int (status_code resp) @ ''. HTTP response body='' @ resp_text resp))"
proof -
  define msg where "msg =
     ''Unknown HTTP error response. Json expected. HTTP response code='' @
     str_int (status_code resp) @ ''. HTTP response body='' @ resp_text resp"
  have "handle_error_response resp = Inl (Exception msg)"
    using assms(4) by (simp add: handle_error_response_def msg_def)
  with assms(3) have "decode_response resp = Inl (Exception msg)"
    by (rule decode_response_failure)
  with request_outcome [OF assms(1,2)] show ?thesis
    by (simp add: msg_def)
qed

theorem unparseable_error_response_witness:
  "snd (request (encoded_as ''{}'')
          (answering (text_reply 502 ''text/html'' ''<h1>Bad Gateway</h1>''))
          sample_config ''get'' ''/contacts'' PNone PNone) =
     Inl (Exception ''Unknown HTTP error response. Json expected. HTTP response code=502. HTTP response body=<h1>Bad Gateway</h1>'')"
proof -
  have st: "\<not> (200 \<le> status_code (text_reply 502 ''text/html'' ''<h1>Bad Gateway</h1>'') \<and>
              status_code (text_reply 502 ''text/html'' ''<h1>Bad Gateway</h1>'') < 300)"
    by (simp add: text_reply_def)
  have js: "resp_json (text_reply 502 ''text/html'' ''<h1>Bad Gateway</h1>'') = Inl ValueError"
    by (simp add: text_reply_def)
  show ?thesis
    using unparseable_error_response [OF sample_get_sent answering_sample_get st js]
    by (simp add: text_reply_def str_int_502)
qed

subsection \<open>C6: the success path and the failure path\<close>

text \<open>
  C6, as the code has it. When the response has a status code in [200, 300):
  if its Content-Type header is present and contains \<^verbatim>\<open>json\<close>, the body is
  parsed and unwrapped, and \<^verbatim>\<open>request\<close> returns the tuple (status code,
  headers, unwrapped body) when both steps succeed, and raises the error of the step
  that fails otherwise; if the header is absent or does not contain \<^verbatim>\<open>json\<close>,
  it returns the tuple (status code, headers, raw content). When the status code is
  outside [200, 300), \<^verbatim>\<open>request\<close> raises and returns no tuple.
\<close>

theorem request_success_path:
  assumes "fst (request dumps transport cfg method url params body) = [req]"
    and "transport req = Inr resp"
  shows
    "(200 \<le> status_code resp \<and> status_code resp < 300 \<and>
      ci_lookup (resp_headers resp) ''Content-Type'' = Some (p @ ''json'' @ q) \<and>
      resp_json resp = Inr j \<and> unwrap_envelope j = Inr resp_body \<longrightarrow>
      snd (request dumps transport cfg method url params body) =
        Inr (status_code resp, resp_headers resp, resp_body)) \<and>
     (200 \<le> status_code resp \<and> status_code resp < 300 \<and>
      ci_lookup (resp_headers resp) ''Content-Type'' = Some (p @ ''json'' @ q) \<and>
      resp_json resp = Inl e \<longrightarrow>
      snd (request dumps transport cfg method url params body) = Inl e) \<and>
     (200 \<le> status_code resp \<and> status_code resp < 300 \<and>
      ci_lookup (resp_headers resp) ''Content-Type'' = Some (p @ ''json'' @ q) \<and>
      resp_json resp = Inr j \<and> unwrap_envelope j = Inl e \<longrightarrow>
      snd (request dumps transport cfg method url params body) = Inl e) \<and>
     (200 \<le> status_code resp \<and> status_code resp < 300 \<and>
      (\<forall>p' q'. ci_lookup (resp_headers resp) ''Content-Type'' \<noteq> Some (p' @ ''json'' @ q')) \<longrightarrow>
      snd (request dumps transport cfg method url params body) =
        Inr (status_code resp, resp_headers resp, PBytes (content resp))) \<and>
     (\<not> (200 \<le> status_code resp \<and> status_code resp < 300) \<longrightarrow>
      isl (snd (request dumps transport cfg method url params body)))"
proof -
  have out: "snd (request dumps transport cfg method url params body) = decode_response resp"
    using assms by (rule request_outcome)
  have js: "json_content_type (resp_headers resp)"
    if "ci_lookup (resp_headers resp) ''Content-Type'' = Some (p @ ''json'' @ q)"
    using that json_content_type_iff by blast
  have raw: "\<not> json_content_type (resp_headers resp)"
    if "\<forall>p' q'. ci_lookup (resp_headers resp) ''Content-Type'' \<noteq> Some (p' @ ''json'' @ q')"
    using that json_content_type_iff by blast
  have fail: "isl (decode_response resp)"
    if "\<not> (200 \<le> status_code resp \<and> status_code resp < 300)"
  proof -
    obtain e' where "handle_error_response resp = Inl e'"
      using handle_error_response_raises [of resp] by (cases "handle_error_response resp") auto
    with that have "decode_response resp = Inl e'" by (rule decode_response_failure)
    then show ?thesis by simp
  qed
  show ?thesis
    unfolding out
    by (intro conjI impI) (auto simp: decode_response_success js raw fail)
qed

theorem request_success_path_witness:
  "snd (request (encoded_as ''{}'') (answering (json_reply 200 ''{}'' contact_page))
          sample_config ''get'' ''/contacts'' PNone PNone) =
     Inr (200, [(''Content-Type'', ''application/json; charset=utf-8'')],
          PList [PBunch [(''id'', PInt 1)], PBunch [(''id'', PInt 2)]]) \<and>
   snd (request (encoded_as ''{}'') (answering (text_reply 204 ''text/plain'' []))
          sample_config ''get'' ''/contacts'' PNone PNone) =
     Inr (204, [(''content-type'', ''text/plain'')], PBytes []) \<and>
   snd (request (encoded_as ''{}'') (answering (text_reply 200 ''application/json'' ''<html>''))
          sample_config ''get'' ''/contacts'' PNone PNone) = Inl ValueError \<and>
   snd (request (encoded_as ''{}'') (answering (json_reply 201 ''[]'' (PList [])))
          sample_config ''get'' ''/contacts'' PNone PNone) = Inl TypeError \<and>
   isl (snd (request (encoded_as ''{}'') (answering (text_reply 301 ''text/html'' ''Moved''))
          sample_config ''get'' ''/contacts'' PNone PNone))"
proof -
  let ?r1 = "json_reply 200 ''{}'' contact_page"
  let ?r2 = "text_reply 204 ''text/plain'' []"
  let ?r3 = "text_reply 200 ''application/json'' ''<html>''"
  let ?r4 = "json_reply 201 ''[]'' (PList [])"
  let ?r5 = "text_reply 301 ''text/html'' ''Moved''"
  have sent: "fst (request (encoded_as ''{}'') (answering r) sample_config
      ''get'' ''/contacts'' PNone PNone) = [sample_get]" for r
    by (rule sample_get_sent)
  have got: "answering r sample_get = Inr r" for r
    by (rule answering_sample_get)
  have ok: "unwrap_envelope contact_page =
      Inr (PList [PBunch [(''id'', PInt 1)], PBunch [(''id'', PInt 2)]])"
    by (simp add: unwrap_envelope_def contact_page_def)
  have bad: "unwrap_envelope (PList []) = Inl TypeError"
    by (simp add: unwrap_envelope_def)
  have plain_ct: "\<forall>p' q'. ci_lookup (resp_headers ?r2) ''Content-Type'' \<noteq> Some (p' @ ''json'' @ q')"
  proof -
    have "\<not> json_content_type (resp_headers ?r2)"
      by (simp add: json_content_type_def text_reply_lookup)
    then show ?thesis by (simp add: json_content_type_iff)
  qed
  have json_ct: "ci_lookup (resp_headers ?r3) ''Content-Type'' = Some (''application/'' @ ''json'' @ [])"
    by (simp add: text_reply_lookup)
  show ?thesis
    using
      request_success_path [OF sent [of "?r1"] got [of "?r1"],
        where p = "''application/''" and q = "''; charset=utf-8''" and j = contact_page
        and resp_body = "PList [PBunch [(''id'', PInt 1)], PBunch [(''id'', PInt 2)]]"]
      request_success_path [OF sent [of "?r2"] got [of "?r2"]]
      request_success_path [OF sent [of "?r3"] got [of "?r3"],
        where p = "''application/''" and q = "[]" and e = ValueError]
      request_success_path [OF sent [of "?r4"] got [of "?r4"],
        where p = "''application/''" and q = "''; charset=utf-8''" and j = "PList []"
        and e = TypeError]
      request_success_path [OF sent [of "?r5"] got [of "?r5"]]
      ok bad plain_ct json_ct json_reply_lookup
    by (simp add: json_reply_def text_reply_def)
qed

text \<open>
  C6 as stated fails on a response of the success range whose JSON body does not follow
  the envelope: with status 200, a JSON content type and the body \<^verbatim>\<open>{}\<close>,
  \<^verbatim>\<open>request\<close> raises \<^verbatim>\<open>KeyError('data')\<close> and returns no tuple.
\<close>

theorem request_success_path_counterexample:
  "200 \<le> status_code (json_reply 200 ''{}'' (PDict [])) \<and>
   status_code (json_reply 200 ''{}'' (PDict [])) < 300 \<and>
   json_content_type (resp_headers (json_reply 200 ''{}'' (PDict []))) \<and>
   snd (request (encoded_as ''{}'') (answering (json_reply 200 ''{}'' (PDict [])))
          sample_config ''get'' ''/contacts'' PNone PNone) = Inl (KeyError ''data'')"
  by (simp add: request_def Let_def sample_config_def answering_def json_reply_def
      decode_response_def json_content_type_def ci_lookup_def lower_char_def unwrap_envelope_def)

subsection \<open>C7: the URL\<close>

text \<open>
  C7. A call to \<^verbatim>\<open>request(method, path, ...)\<close> makes a single HTTP call, and
  its URL is the base URL of the configuration, followed by \<^verbatim>\<open>/v2\<close>, followed
  by the path. (The one call is not made when the body cannot be encoded.)
\<close>

theorem request_url:
  "map req_url (fst (request dumps transport cfg method url params body)) =
     (if body \<noteq> PNone \<and> isl (dumps (wrap_envelope body)) then []
      else [base_url cfg @ ''/v2'' @ url])"
  by (simp add: request_def Let_def API_VERSION_def split: sum.splits prod.splits)

theorem request_url_witness:
  "map req_url (fst (request sample_dumps (answering (json_reply 200 ''{}'' contact_page))
                       sample_config ''post'' ''/contacts'' PNone sample_contact)) =
     [''https://api.getbase.com/v2/contacts'']"
  using
    request_url [of sample_dumps "answering (json_reply 200 ''{}'' contact_page)"
      sample_config "''post''" "''/contacts''" PNone sample_contact]
  by (simp add: sample_dumps_def sample_contact_def sample_config_def wrap_envelope_def)

subsection \<open>C8: the headers\<close>

text \<open>
  C8. The HTTP call of \<^verbatim>\<open>request\<close> is given exactly the headers Accept:
  application/json, Authorization: Bearer followed by the access token, and User-Agent:
  the configured user agent, and after them Content-Type: application/json if and only
  if the body is not None.
\<close>

theorem request_headers:
  "map req_headers (fst (request dumps transport cfg method url params body)) =
     (if body \<noteq> PNone \<and> isl (dumps (wrap_envelope body)) then []
      else [[(''Accept'', ''application/json''),
             (''Authorization'', ''Bearer '' @ access_token cfg),
             (''User-Agent'', user_agent cfg)] @
            (if body \<noteq> PNone then [(''Content-Type'', ''application/json'')] else [])])"
  by (simp add: request_def Let_def split: sum.splits prod.splits)

theorem request_headers_witness:
  "map req_headers (fst (request sample_dumps (answering (json_reply 200 ''{}'' contact_page))
                           sample_config ''post'' ''/contacts'' PNone sample_contact)) =
     [[(''Accept'', ''application/json''), (''Authorization'', ''Bearer t0ken''),
       (''User-Agent'', ''BaseCRM/V2 Python/1.0''), (''Content-Type'', ''application/json'')]] \<and>
   map req_headers (fst (request sample_dumps (answering (json_reply 200 ''{}'' contact_page))
                           sample_config ''get'' ''/contacts'' PNone PNone)) =
     [[(''Accept'', ''application/json''), (''Authorization'', ''Bearer t0ken''),
       (''User-Agent'', ''BaseCRM/V2 Python/1.0'')]]"
  using
    request_headers [of sample_dumps "answering (json_reply 200 ''{}'' contact_page)"
      sample_config "''post''" "''/contacts''" PNone sample_contact]
    request_headers [of sample_dumps "answering (json_reply 200 ''{}'' contact_page)"
      sample_config "''get''" "''/contacts''" PNone PNone]
  by (simp add: sample_dumps_def sample_contact_def sample_config_def wrap_envelope_def)

subsection \<open>C9: the round trip\<close>

text \<open>
  C9. Wrapping a value and unwrapping the result gives the value back: for every value
  \<open>x\<close>, \<^verbatim>\<open>unwrap_envelope(wrap_envelope(x))\<close> returns (it does not raise), and
  what it returns, \<^verbatim>\<open>bunchify(x)\<close>, is equal to \<open>x\<close> as Python's
  \<^verbatim>\<open>==\<close> sees it (the same value up to the Bunch class of its dicts).
\<close>

theorem unwrap_wrap_roundtrip:
  "unwrap_envelope (wrap_envelope x) = Inr (bunchify x) \<and> py_eq (bunchify x) x"
  by (simp add: unwrap_envelope_def wrap_envelope_def py_eq_bunchify)

subsection \<open>C10: a success response outside the envelope convention\<close>

text \<open>
  C10, as the code has it. When the response has a status code in [200, 300), a
  Content-Type that contains \<^verbatim>\<open>json\<close> and a body that parses to a JSON object:
  if the object has neither an \<^verbatim>\<open>items\<close> key nor a \<^verbatim>\<open>data\<close> key,
  \<^verbatim>\<open>request\<close> raises \<^verbatim>\<open>KeyError('data')\<close>; if it has an
  \<^verbatim>\<open>items\<close> list some element of which cannot give a \<^verbatim>\<open>data\<close> field,
  \<^verbatim>\<open>request\<close> raises and returns no tuple, and the error is that of the first
  such element: \<^verbatim>\<open>KeyError('data')\<close> when the element is an object that lacks
  the key, \<^verbatim>\<open>TypeError\<close> when it is not an object.
\<close>

theorem request_envelope_missing:
  assumes "fst (request dumps transport cfg method url params body) = [req]"
    and "transport req = Inr resp"
    and "200 \<le> status_code resp \<and> status_code resp < 300"
    and "ci_lookup (resp_headers resp) ''Content-Type'' = Some (p @ ''json'' @ q)"
    and "resp_json resp = Inr (PDict kvs)"
  shows
    "(''items'' \<notin> set (map fst kvs) \<and> ''data'' \<notin> set (map fst kvs) \<longrightarrow>
      snd (request dumps transport cfg method url params body) = Inl (KeyError ''data'')) \<and>
     (map_of kvs ''items'' = Some (PList xs) \<and> (\<exists>x\<in>set xs. isl (py_getitem x ''data'')) \<longrightarrow>
      isl (snd (request dumps transport cfg method url params body))) \<and>
     (map_of kvs ''items'' = Some (PList (pre @ x # suf)) \<and>
      (\<forall>y\<in>set pre. \<not> isl (py_getitem y ''data'')) \<and> isl (py_getitem x ''data'') \<longrightarrow>
      snd (request dumps transport cfg method url params body) =
        Inl (if is_dict x then KeyError ''data'' else TypeError))"
proof -
  have js: "json_content_type (resp_headers resp)"
    using assms(4) json_content_type_iff by blast
  have out: "snd (request dumps transport cfg method url params body) =
      (case unwrap_envelope (PDict kvs) of
         Inl e \<Rightarrow> Inl e
       | Inr resp_body \<Rightarrow> Inr (status_code resp, resp_headers resp, resp_body))"
    using request_outcome [OF assms(1,2)] decode_response_success [OF assms(3)] js assms(5)
    by simp
  have neither: "snd (request dumps transport cfg method url params body) = Inl (KeyError ''data'')"
    if "''items'' \<notin> set (map fst kvs) \<and> ''data'' \<notin> set (map fst kvs)"
    using that out by (simp add: unwrap_envelope_no_keys)
  have some: "isl (snd (request dumps transport cfg method url params body))"
    if h: "map_of kvs ''items'' = Some (PList xs) \<and> (\<exists>x\<in>set xs. isl (py_getitem x ''data''))"
  proof -
    from h have "isl (unwrap_items xs)" by (simp add: unwrap_items_some_error)
    then obtain e where "unwrap_items xs = Inl e" by (cases "unwrap_items xs") auto
    with h out show ?thesis by (simp add: unwrap_envelope_items)
  qed
  have first: "snd (request dumps transport cfg method url params body) =
        Inl (if is_dict x then KeyError ''data'' else TypeError)"
    if h: "map_of kvs ''items'' = Some (PList (pre @ x # suf)) \<and>
      (\<forall>y\<in>set pre. \<not> isl (py_getitem y ''data'')) \<and> isl (py_getitem x ''data'')"
  proof -
    from h obtain e where e: "py_getitem x ''data'' = Inl e"
      by (cases "py_getitem x ''data''") auto
    then have "e = (if is_dict x then KeyError ''data'' else TypeError)"
      by (rule py_getitem_error)
    moreover from h e have "unwrap_items (pre @ x # suf) = Inl e"
      by (simp add: unwrap_items_first_error)
    ultimately show ?thesis
      using h out by (simp add: unwrap_envelope_items)
  qed
  from neither some first show ?thesis by blast
qed

theorem request_envelope_missing_witness:
  "snd (request (encoded_as ''{}'') (answering (json_reply 200 ''{}'' (PDict [(''meta'', PNone)])))
          sample_config ''get'' ''/contacts'' PNone PNone) = Inl (KeyError ''data'') \<and>
   snd (request (encoded_as ''{}'')
          (answering (json_reply 200 ''{}''
             (PDict [(''items'', PList [PDict [(''data'', PInt 1)], PDict [(''meta'', PNone)]])])))
          sample_config ''get'' ''/contacts'' PNone PNone) = Inl (KeyError ''data'') \<and>
   snd (request (encoded_as ''{}'')
          (answering (json_reply 200 ''{}''
             (PDict [(''items'', PList [PDict [(''data'', PInt 1)], PNone])])))
          sample_config ''get'' ''/contacts'' PNone PNone) = Inl TypeError"
proof -
  let ?r1 = "json_reply 200 ''{}'' (PDict [(''meta'', PNone)])"
  let ?r2 = "json_reply 200 ''{}''
     (PDict [(''items'', PList [PDict [(''data'', PInt 1)], PDict [(''meta'', PNone)]])])"
  let ?r3 = "json_reply 200 ''{}'' (PDict [(''items'', PList [PDict [(''data'', PInt 1)], PNone])])"
  have sent: "fst (request (encoded_as ''{}'') (answering r) sample_config
      ''get'' ''/contacts'' PNone PNone) = [sample_get]" for r
    by (rule sample_get_sent)
  have got: "answering r sample_get = Inr r" for r
    by (rule answering_sample_get)
  have st: "200 \<le> status_code (json_reply 200 raw v) \<and> status_code (json_reply 200 raw v) < 300"
    for raw v
    by (simp add: json_reply_def)
  have js: "resp_json (json_reply 200 raw (PDict kvs)) = Inr (PDict kvs)" for raw kvs
    by (simp add: json_reply_def)
  show ?thesis
    using
      request_envelope_missing [OF sent [of "?r1"] got [of "?r1"] st json_reply_lookup js]
      request_envelope_missing [OF sent [of "?r2"] got [of "?r2"] st json_reply_lookup js,
        where pre = "[PDict [(''data'', PInt 1)]]" and x = "PDict [(''meta'', PNone)]"
        and suf = "[]"]
      request_envelope_missing [OF sent [of "?r3"] got [of "?r3"] st json_reply_lookup js,
        where pre = "[PDict [(''data'', PInt 1)]]" and x = PNone and suf = "[]"]
    by simp
qed

text \<open>
  C10 as stated fails on an \<^verbatim>\<open>items\<close> list with an element that is not an
  object: for the body \<^verbatim>\<open>{"items": [5, {}]}\<close> the element \<^verbatim>\<open>{}\<close> lacks
  the \<^verbatim>\<open>data\<close> key, and \<^verbatim>\<open>request\<close> raises the
  \<^verbatim>\<open>TypeError\<close> of \<^verbatim>\<open>5['data']\<close>, which is not a lookup error.
\<close>

theorem request_envelope_missing_counterexample:
  "200 \<le> status_code (json_reply 200 ''{}'' (PDict [(''items'', PList [PInt 5, PDict []])])) \<and>
   status_code (json_reply 200 ''{}'' (PDict [(''items'', PList [PInt 5, PDict []])])) < 300 \<and>
   json_content_type
     (resp_headers (json_reply 200 ''{}'' (PDict [(''items'', PList [PInt 5, PDict []])]))) \<and>
   py_getitem (PDict []) ''data'' = Inl (KeyError ''data'') \<and>
   snd (request (encoded_as ''{}'')
          (answering (json_reply 200 ''{}'' (PDict [(''items'', PList [PInt 5, PDict []])])))
          sample_config ''get'' ''/contacts'' PNone PNone) = Inl TypeError"
  by (simp add: request_def Let_def sample_config_def answering_def json_reply_def
      decode_response_def json_content_type_def ci_lookup_def lower_char_def unwrap_envelope_def)

end
